theory Spec2Isabelle
  imports Complex_Main "HOL-Library.Multiset" "HOL-Library.Sublist"
begin

section \<open>JavaScript numbers\<close>

text \<open>
  A JavaScript Number is modelled as an exact real or one of the three special values of
  IEEE 754. Arithmetic on finite values is exact: rounding to binary64 and overflow of a
  finite computation are outside the model, and \<open>-0\<close> is identified with \<open>+0\<close> (the
  program never divides by a value that can be zero: the divisors are the constants 254
  and 100, and \<open>y\<close> and \<open>mirek\<close> behind their guards).
\<close>

datatype jsnum = Fin real | PInf | NInf | NaN

fun js_neg :: "jsnum \<Rightarrow> jsnum" where
  "js_neg (Fin a) = Fin (- a)"
| "js_neg PInf = NInf"
| "js_neg NInf = PInf"
| "js_neg NaN = NaN"

fun js_add :: "jsnum \<Rightarrow> jsnum \<Rightarrow> jsnum" where
  "js_add NaN _ = NaN"
| "js_add _ NaN = NaN"
| "js_add (Fin a) (Fin b) = Fin (a + b)"
| "js_add PInf NInf = NaN"
| "js_add NInf PInf = NaN"
| "js_add PInf _ = PInf"
| "js_add _ PInf = PInf"
| "js_add NInf _ = NInf"
| "js_add _ NInf = NInf"

definition js_sub :: "jsnum \<Rightarrow> jsnum \<Rightarrow> jsnum" where
  "js_sub a b = js_add a (js_neg b)"

text \<open>The sign of a non-NaN number: \<open>-1\<close>, \<open>0\<close> or \<open>1\<close>.\<close>

fun js_sign :: "jsnum \<Rightarrow> int" where
  "js_sign (Fin a) = (if a < 0 then - 1 else if a = 0 then 0 else 1)"
| "js_sign PInf = 1"
| "js_sign NInf = - 1"
| "js_sign NaN = 0"

definition signed_inf :: "int \<Rightarrow> jsnum" where
  "signed_inf sg = (if sg < 0 then NInf else PInf)"

fun js_mul :: "jsnum \<Rightarrow> jsnum \<Rightarrow> jsnum" where
  "js_mul NaN _ = NaN"
| "js_mul _ NaN = NaN"
| "js_mul (Fin a) (Fin b) = Fin (a * b)"
| "js_mul a b = (if js_sign a * js_sign b = 0 then NaN else signed_inf (js_sign a * js_sign b))"

fun js_div :: "jsnum \<Rightarrow> jsnum \<Rightarrow> jsnum" where
  "js_div NaN _ = NaN"
| "js_div _ NaN = NaN"
| "js_div (Fin a) (Fin b) =
     (if b = 0 then (if a = 0 then NaN else signed_inf (js_sign (Fin a))) else Fin (a / b))"
| "js_div (Fin a) _ = Fin 0"
| "js_div a (Fin b) = signed_inf (js_sign a * (if b < 0 then - 1 else 1))"
| "js_div _ _ = NaN"

text \<open>\<open>a <= b\<close>: false as soon as one side is NaN.\<close>

fun js_le :: "jsnum \<Rightarrow> jsnum \<Rightarrow> bool" where
  "js_le NaN _ = False"
| "js_le _ NaN = False"
| "js_le (Fin a) (Fin b) = (a \<le> b)"
| "js_le NInf _ = True"
| "js_le _ PInf = True"
| "js_le _ _ = False"

text \<open>\<open>Math.max\<close> and \<open>Math.min\<close> of two arguments: NaN if either is NaN.\<close>

definition Math_max :: "jsnum \<Rightarrow> jsnum \<Rightarrow> jsnum" where
  "Math_max a b = (if a = NaN \<or> b = NaN then NaN else if js_le a b then b else a)"

definition Math_min :: "jsnum \<Rightarrow> jsnum \<Rightarrow> jsnum" where
  "Math_min a b = (if a = NaN \<or> b = NaN then NaN else if js_le a b then a else b)"

text \<open>\<open>Math.round\<close>: the nearest integer, a tie going towards \<open>+\<infinity>\<close>.\<close>

fun Math_round :: "jsnum \<Rightarrow> jsnum" where
  "Math_round (Fin a) = Fin (of_int \<lfloor>a + 1 / 2\<rfloor>)"
| "Math_round v = v"

fun Math_log :: "jsnum \<Rightarrow> jsnum" where
  "Math_log (Fin a) = (if a < 0 then NaN else if a = 0 then NInf else Fin (ln a))"
| "Math_log PInf = PInf"
| "Math_log NInf = NaN"
| "Math_log NaN = NaN"

text \<open>
  \<open>Math.pow\<close>, following the case list of ECMAScript's \<open>Number::exponentiate\<close>
  (with \<open>-0\<close> read as \<open>+0\<close>).
\<close>

definition odd_integer :: "real \<Rightarrow> bool" where
  "odd_integer e = (e = of_int \<lfloor>e\<rfloor> \<and> odd \<lfloor>e\<rfloor>)"

fun Math_pow :: "jsnum \<Rightarrow> jsnum \<Rightarrow> jsnum" where
  "Math_pow _ NaN = NaN"
| "Math_pow b (Fin e) =
     (if e = 0 then Fin 1
      else case b of
        NaN \<Rightarrow> NaN
      | PInf \<Rightarrow> if 0 < e then PInf else Fin 0
      | NInf \<Rightarrow> if 0 < e then (if odd_integer e then NInf else PInf) else Fin 0
      | Fin a \<Rightarrow>
          if a = 0 then (if 0 < e then Fin 0 else PInf)
          else if 0 < a then Fin (a powr e)
          else if e \<noteq> of_int \<lfloor>e\<rfloor> then NaN
          else if odd \<lfloor>e\<rfloor> then Fin (- (\<bar>a\<bar> powr e))
          else Fin (\<bar>a\<bar> powr e))"
| "Math_pow b PInf =
     (case b of
        NaN \<Rightarrow> NaN
      | Fin a \<Rightarrow> if 1 < \<bar>a\<bar> then PInf else if \<bar>a\<bar> = 1 then NaN else Fin 0
      | _ \<Rightarrow> PInf)"
| "Math_pow b NInf =
     (case b of
        NaN \<Rightarrow> NaN
      | Fin a \<Rightarrow> if 1 < \<bar>a\<bar> then Fin 0 else if \<bar>a\<bar> = 1 then NaN else PInf
      | _ \<Rightarrow> Fin 0)"

subsection \<open>Rendering an integral number in radix 16\<close>

definition hexdigit :: "nat \<Rightarrow> char" where
  "hexdigit d = ''0123456789abcdef'' ! d"

fun hex_of_nat :: "nat \<Rightarrow> string" where
  "hex_of_nat n = (if n < 16 then [hexdigit n] else hex_of_nat (n div 16) @ [hexdigit (n mod 16)])"

text \<open>
  \<open>Number.prototype.toString(16)\<close>. The program applies it only to results of
  \<open>Math.round\<close>, so only integral finite values (and the special values) are rendered;
  the fraction digits JavaScript prints for other finite values never arise.
\<close>

fun toString16 :: "jsnum \<Rightarrow> string" where
  "toString16 NaN = ''NaN''"
| "toString16 PInf = ''Infinity''"
| "toString16 NInf = ''-Infinity''"
| "toString16 (Fin a) = (if a < 0 then ''-'' @ hex_of_nat (nat \<lfloor>- a\<rfloor>) else hex_of_nat (nat \<lfloor>a\<rfloor>))"

text \<open>\<open>s.padStart(n, c)\<close> for a one-character pad string.\<close>

definition padStart :: "nat \<Rightarrow> char \<Rightarrow> string \<Rightarrow> string" where
  "padStart n c s = replicate (n - length s) c @ s"

section \<open>JSON values as the bridge delivers them\<close>

text \<open>
  The result of \<open>res.json()\<close>. A JavaScript value is a \<open>json option\<close>, \<open>None\<close> being
  \<open>undefined\<close>. An object is the list of its own properties; a property is looked up by
  its name.
\<close>

datatype json =
    JNull
  | JBool bool
  | JNum jsnum
  | JStr string
  | JArr "json list"
  | JObj "(string \<times> json) list"

type_synonym jsval = "json option"

datatype exn = Exn string

text \<open>
  Reading property \<open>k\<close> of a value that is neither \<open>null\<close> nor \<open>undefined\<close>. None of the
  property names this program reads (\<open>palette\<close>, \<open>color\<close>, \<open>xy\<close>, \<open>x\<close>, \<open>y\<close>, \<open>dimming\<close>,
  \<open>brightness\<close>, \<open>color_temperature\<close>, \<open>mirek\<close>, \<open>actions\<close>, \<open>action\<close>, \<open>metadata\<close>,
  \<open>name\<close>, \<open>id\<close>, \<open>data\<close>) exists on a number, boolean, string or array.
\<close>

definition property :: "json \<Rightarrow> string \<Rightarrow> jsval" where
  "property v k = (case v of JObj kvs \<Rightarrow> map_of kvs k | _ \<Rightarrow> None)"

text \<open>\<open>v?.k\<close>\<close>

definition optget :: "jsval \<Rightarrow> string \<Rightarrow> jsval" where
  "optget v k = (case v of None \<Rightarrow> None | Some JNull \<Rightarrow> None | Some w \<Rightarrow> property w k)"

text \<open>\<open>v.k\<close>: a TypeError on \<open>null\<close> and \<open>undefined\<close>.\<close>

definition getprop :: "jsval \<Rightarrow> string \<Rightarrow> exn + jsval" where
  "getprop v k =
     (case v of None \<Rightarrow> Inl (Exn ''TypeError'') | Some JNull \<Rightarrow> Inl (Exn ''TypeError'')
      | Some w \<Rightarrow> Inr (property w k))"

definition truthy :: "jsval \<Rightarrow> bool" where
  "truthy v =
     (case v of
        None \<Rightarrow> False
      | Some JNull \<Rightarrow> False
      | Some (JBool b) \<Rightarrow> b
      | Some (JNum n) \<Rightarrow> n \<noteq> Fin 0 \<and> n \<noteq> NaN
      | Some (JStr s) \<Rightarrow> s \<noteq> []
      | Some _ \<Rightarrow> True)"


text \<open>
  \<open>ToNumber\<close>, as the division \<open>bri / 254\<close> applies it. On a string, an array or an
  object ECMAScript parses or calls \<open>toString\<close>; that part of the runtime is the
  parameter \<open>ext\<close>, which always yields a number (an object that carries a property named
  \<open>toString\<close> of its own, on which the conversion throws, is outside the model).
\<close>

definition ToNumber :: "(json \<Rightarrow> jsnum) \<Rightarrow> jsval \<Rightarrow> jsnum" where
  "ToNumber ext v =
     (case v of
        None \<Rightarrow> NaN
      | Some JNull \<Rightarrow> Fin 0
      | Some (JBool b) \<Rightarrow> Fin (if b then 1 else 0)
      | Some (JNum n) \<Rightarrow> n
      | Some w \<Rightarrow> ext w)"

section \<open>Colorimetry\<close>

definition gamma :: "jsnum \<Rightarrow> jsnum" where
  "gamma c =
     (if js_le c (Fin 0.0031308) then js_mul (Fin 12.92) c
      else js_sub (js_mul (Fin 1.055) (Math_pow c (js_div (Fin 1) (Fin 2.4)))) (Fin 0.055))"

definition clamp :: "jsnum \<Rightarrow> jsnum" where
  "clamp c = Math_max (Fin 0) (Math_min (Fin 1) c)"

definition channel_hex :: "jsnum \<Rightarrow> string" where
  "channel_hex v = padStart 2 CHR ''0'' (toString16 (Math_round (js_mul v (Fin 255))))"

definition xyBriToHex :: "(json \<Rightarrow> jsnum) \<Rightarrow> jsval \<Rightarrow> jsval \<Rightarrow> jsval \<Rightarrow> string option" where
  "xyBriToHex ext xv yv briv =
     (case (xv, yv) of
        (Some (JNum x), Some (JNum y)) \<Rightarrow>
          if y = Fin 0 then None
          else
            let bri = (if briv = None then Some (JNum (Fin 254)) else briv);
                z = js_sub (js_sub (Fin 1) x) y;
                Y = js_div (ToNumber ext bri) (Fin 254);
                X = js_mul (js_div Y y) x;
                Z = js_mul (js_div Y y) z;
                r = js_sub (js_sub (js_mul X (Fin 1.656492)) (js_mul Y (Fin 0.354851)))
                      (js_mul Z (Fin 0.255038));
                g = js_add (js_add (js_mul (js_neg X) (Fin 0.707196)) (js_mul Y (Fin 1.655397)))
                      (js_mul Z (Fin 0.036152));
                b = js_add (js_sub (js_mul X (Fin 0.051713)) (js_mul Y (Fin 0.121364)))
                      (js_mul Z (Fin 1.01153))
            in Some (''#'' @ concat (map channel_hex [clamp (gamma r), clamp (gamma g), clamp (gamma b)]))
      | _ \<Rightarrow> None)"

definition toHex :: "jsnum \<Rightarrow> string" where
  "toHex v = padStart 2 CHR ''0'' (toString16 (Math_max (Fin 0) (Math_min (Fin 255) (Math_round v))))"

definition mirekToHex :: "jsval \<Rightarrow> string option" where
  "mirekToHex mv =
     (case mv of
        Some (JNum mirek) \<Rightarrow>
          if js_le mirek (Fin 0) then None
          else
            let kelvin = js_div (Fin 1000000) mirek;
                temp = js_div kelvin (Fin 100);
                rgb =
                  (if js_le temp (Fin 66) then
                     (Fin 255,
                      js_sub (js_mul (Fin 99.4708025861) (Math_log temp)) (Fin 161.1195681661),
                      if js_le temp (Fin 19) then Fin 0
                      else js_sub (js_mul (Fin 138.5177312231) (Math_log (js_sub temp (Fin 10))))
                             (Fin 305.0447927307))
                   else
                     (js_mul (Fin 329.698727446) (Math_pow (js_sub temp (Fin 60)) (js_neg (Fin 0.1332047592))),
                      js_mul (Fin 288.1221695283) (Math_pow (js_sub temp (Fin 60)) (js_neg (Fin 0.0755148492))),
                      Fin 255))
            in (case rgb of (r, g, b) \<Rightarrow> Some (''#'' @ toHex r @ toHex g @ toHex b))
      | _ \<Rightarrow> None)"

section \<open>Color extraction\<close>

text \<open>
  \<open>String.prototype.toLowerCase\<close> on the ASCII letters; the strings it is applied to
  here are the outputs of the two conversions above, which are ASCII.
\<close>

definition lower_char :: "char \<Rightarrow> char" where
  "lower_char c =
     (if (65 :: nat) \<le> of_char c \<and> of_char c \<le> (90 :: nat)
      then char_of (of_char c + (32 :: nat)) else c)"

definition toLowerCase :: "string \<Rightarrow> string" where
  "toLowerCase s = map lower_char s"

text \<open>
  The loop of \<open>dedupeColors\<close>: \<open>seen\<close> is the Set of lower-cased keys, \<open>out\<close> the array
  built so far. An entry is \<open>null\<close> (\<open>None\<close>) or a string; \<open>!color\<close> also skips the
  empty string. The \<open>break\<close> is tested after each push.
\<close>

fun dedupe_loop :: "nat \<Rightarrow> string set \<Rightarrow> string list \<Rightarrow> string option list \<Rightarrow> string list" where
  "dedupe_loop limit seen out [] = out"
| "dedupe_loop limit seen out (None # cs) = dedupe_loop limit seen out cs"
| "dedupe_loop limit seen out (Some color # cs) =
     (if color = [] then dedupe_loop limit seen out cs
      else if toLowerCase color \<in> seen then dedupe_loop limit seen out cs
      else if limit \<le> length (out @ [color]) then out @ [color]
      else dedupe_loop limit (insert (toLowerCase color) seen) (out @ [color]) cs)"

definition dedupeColors :: "string option list \<Rightarrow> nat \<Rightarrow> string list" where
  "dedupeColors colors limit = dedupe_loop limit {} [] colors"

text \<open>
  \<open>(v || []).map(f)\<close>: the empty array for a falsy \<open>v\<close>, the mapped array for an array,
  and a TypeError (\<open>map\<close> is not a function) for any other truthy value.
\<close>

definition or_empty_map :: "jsval \<Rightarrow> (jsval \<Rightarrow> 'a) \<Rightarrow> exn + 'a list" where
  "or_empty_map v f =
     (if \<not> truthy v then Inr []
      else case v of Some (JArr xs) \<Rightarrow> Inr (map (\<lambda>e. f (Some e)) xs)
           | _ \<Rightarrow> Inl (Exn ''TypeError''))"

text \<open>Sequencing of computations that may throw.\<close>

definition thenE :: "exn + 'a \<Rightarrow> ('a \<Rightarrow> exn + 'b) \<Rightarrow> exn + 'b" where
  "thenE m f = (case m of Inl e \<Rightarrow> Inl e | Inr a \<Rightarrow> f a)"

definition paletteColor :: "(json \<Rightarrow> jsnum) \<Rightarrow> jsval \<Rightarrow> string option" where
  "paletteColor ext entry =
     xyBriToHex ext
       (optget (optget (optget entry ''color'') ''xy'') ''x'')
       (optget (optget (optget entry ''color'') ''xy'') ''y'')
       (optget (optget entry ''dimming'') ''brightness'')"

definition paletteTemperature :: "jsval \<Rightarrow> string option" where
  "paletteTemperature entry = mirekToHex (optget (optget entry ''color_temperature'') ''mirek'')"

definition actionColor :: "(json \<Rightarrow> jsnum) \<Rightarrow> jsval \<Rightarrow> string option" where
  "actionColor ext a =
     xyBriToHex ext
       (optget (optget (optget (optget a ''action'') ''color'') ''xy'') ''x'')
       (optget (optget (optget (optget a ''action'') ''color'') ''xy'') ''y'')
       (optget (optget (optget a ''action'') ''dimming'') ''brightness'')"

definition actionTemperature :: "jsval \<Rightarrow> string option" where
  "actionTemperature a =
     mirekToHex (optget (optget (optget a ''action'') ''color_temperature'') ''mirek'')"

text \<open>\<open>scene.palette || {}\<close>\<close>

definition palette_of :: "jsval \<Rightarrow> exn + jsval" where
  "palette_of scene =
     thenE (getprop scene ''palette'') (\<lambda>p. Inr (if truthy p then p else Some (JObj [])))"

definition extractColors :: "(json \<Rightarrow> jsnum) \<Rightarrow> jsval \<Rightarrow> exn + string list" where
  "extractColors ext scene =
     thenE (palette_of scene) (\<lambda>palette.
     thenE (getprop palette ''color'') (\<lambda>pc.
     thenE (or_empty_map pc (paletteColor ext)) (\<lambda>paletteColors.
     thenE (getprop palette ''color_temperature'') (\<lambda>pt.
     thenE (or_empty_map pt paletteTemperature) (\<lambda>paletteTemperatures.
     thenE (getprop scene ''actions'') (\<lambda>acts.
     thenE (or_empty_map acts (actionColor ext)) (\<lambda>actionColors.
     thenE (getprop scene ''actions'') (\<lambda>acts2.
     thenE (or_empty_map acts2 actionTemperature) (\<lambda>actionTemperatures.
       let combined = paletteColors @ paletteTemperatures @ actionColors @ actionTemperatures;
           deduped = dedupeColors combined 6
       in Inr (if length deduped \<noteq> 0 then deduped else [''#444444'']))))))))))"

text \<open>
  The wording of the specification, for comparison: drop the no-color entries, keep the
  first occurrence of every lower-cased key, cut after the cap.
\<close>

fun first_seen :: "string list \<Rightarrow> string list" where
  "first_seen [] = []"
| "first_seen (c # cs) = c # first_seen (filter (\<lambda>d. toLowerCase d \<noteq> toLowerCase c) cs)"

definition present :: "string option list \<Rightarrow> string list" where
  "present cs = filter (\<lambda>c. c \<noteq> []) (map the (filter (\<lambda>c. c \<noteq> None) cs))"

definition dedupe_spec :: "string option list \<Rightarrow> string list" where
  "dedupe_spec cs = take 6 (first_seen (present cs))"

text \<open>The array behind \<open>v || []\<close> when \<open>v\<close> is falsy or an array.\<close>

definition entries :: "jsval \<Rightarrow> jsval list" where
  "entries v = (case v of Some (JArr xs) \<Rightarrow> (if truthy v then map Some xs else []) | _ \<Rightarrow> [])"

definition array_or_falsy :: "jsval \<Rightarrow> bool" where
  "array_or_falsy v = (case v of Some (JArr xs) \<Rightarrow> True | _ \<Rightarrow> \<not> truthy v)"

definition converted :: "(json \<Rightarrow> jsnum) \<Rightarrow> jsval \<Rightarrow> string option list" where
  "converted ext scene =
     (let palette = optget scene ''palette'' in
      map (paletteColor ext) (entries (optget palette ''color''))
      @ map paletteTemperature (entries (optget palette ''color_temperature''))
      @ map (actionColor ext) (entries (optget scene ''actions''))
      @ map actionTemperature (entries (optget scene ''actions'')))"

section \<open>Interaction controller\<close>

subsection \<open>State\<close>

text \<open>
  A scene of the list: \<open>{id, name, colors, type}\<close>. The name is the value
  \<open>scene.metadata?.name || "Untitled"\<close>, the type one of the strings \<open>"scene"\<close> and
  \<open>"smart_scene"\<close>.
\<close>

record scene =
  sc_id :: jsval
  sc_name :: jsval
  sc_colors :: "string list"
  sc_type :: string

text \<open>
  A light of the roster, read through the bridge's resource schema: \<open>id\<close> a string,
  \<open>on.on\<close> a boolean (false when absent), \<open>dimming.brightness\<close> a finite number, or
  absent.
\<close>

record light =
  l_id :: string
  l_on :: bool
  l_brightness :: "real option"

text \<open>The ten \<open>useState\<close> cells of \<open>SceneList\<close>; \<open>error\<close> is \<open>null\<close> or a string.\<close>

record ui_state =
  scenes :: "scene list"
  loading :: bool
  error :: "string option"
  selected :: int
  message :: string
  setMode :: bool
  brightnessMode :: bool
  brightness :: real
  lights :: "light list"
  lightsOn :: bool

definition init :: ui_state where
  "init = \<lparr> scenes = [], loading = True, error = None, selected = 0, message = [],
            setMode = False, brightnessMode = False, brightness = 100, lights = [],
            lightsOn = False \<rparr>"

subsection \<open>Initial load\<close>

fun mapE :: "('a \<Rightarrow> exn + 'b) \<Rightarrow> 'a list \<Rightarrow> exn + 'b list" where
  "mapE f [] = Inr []"
| "mapE f (x # xs) = thenE (f x) (\<lambda>y. thenE (mapE f xs) (\<lambda>ys. Inr (y # ys)))"

text \<open>
  \<open>payload?.data?.map(f) ?? []\<close>: the empty list when \<open>data\<close> is \<open>null\<close> or \<open>undefined\<close>,
  a TypeError when it is anything else but an array.
\<close>

definition data_map :: "jsval \<Rightarrow> (jsval \<Rightarrow> exn + 'a) \<Rightarrow> exn + 'a list" where
  "data_map payload f =
     (case optget payload ''data'' of
        None \<Rightarrow> Inr []
      | Some JNull \<Rightarrow> Inr []
      | Some (JArr xs) \<Rightarrow> mapE (\<lambda>e. f (Some e)) xs
      | Some _ \<Rightarrow> Inl (Exn ''TypeError''))"

definition display_name :: "jsval \<Rightarrow> jsval" where
  "display_name scene =
     (let n = optget (optget scene ''metadata'') ''name''
      in if truthy n then n else Some (JStr ''Untitled''))"

definition regularScene :: "(json \<Rightarrow> jsnum) \<Rightarrow> jsval \<Rightarrow> exn + scene" where
  "regularScene ext scene =
     thenE (getprop scene ''id'') (\<lambda>i.
     thenE (extractColors ext scene) (\<lambda>cs.
       Inr \<lparr> sc_id = i, sc_name = display_name scene, sc_colors = cs, sc_type = ''scene'' \<rparr>))"

definition smartScene :: "jsval \<Rightarrow> exn + scene" where
  "smartScene scene =
     thenE (getprop scene ''id'') (\<lambda>i.
       Inr \<lparr> sc_id = i, sc_name = display_name scene, sc_colors = [''#6366f1'', ''#8b5cf6''],
             sc_type = ''smart_scene'' \<rparr>)"

text \<open>
  \<open>Array.prototype.sort\<close> with a comparator: a stable sort. The comparator
  \<open>(a, b) => a.name.localeCompare(b.name)\<close> belongs to the runtime (ICU collation); it
  is the parameter \<open>cmp\<close>, from the two names to the sign of the result.
\<close>

fun insert_sorted :: "('a \<Rightarrow> 'a \<Rightarrow> int) \<Rightarrow> 'a \<Rightarrow> 'a list \<Rightarrow> 'a list" where
  "insert_sorted c x [] = [x]"
| "insert_sorted c x (y # ys) = (if c x y \<le> 0 then x # y # ys else y # insert_sorted c x ys)"

fun js_sort :: "('a \<Rightarrow> 'a \<Rightarrow> int) \<Rightarrow> 'a list \<Rightarrow> 'a list" where
  "js_sort c [] = []"
| "js_sort c (x # xs) = insert_sorted c x (js_sort c xs)"

definition by_name :: "(jsval \<Rightarrow> jsval \<Rightarrow> int) \<Rightarrow> scene \<Rightarrow> scene \<Rightarrow> int" where
  "by_name cmp a b = cmp (sc_name a) (sc_name b)"

text \<open>The block shared by the initial load and \<open>doActivate\<close>: store the roster, derive
  the aggregate power and the average brightness of the lights that are on.\<close>

definition avgBrightness :: "light list \<Rightarrow> real" where
  "avgBrightness onLights =
     foldl (\<lambda>sum l. sum + (case l_brightness l of None \<Rightarrow> 100 | Some b \<Rightarrow> b)) 0 onLights
       / real (length onLights)"

definition anyOn :: "light list \<Rightarrow> bool" where
  "anyOn ls = list_ex l_on ls"

definition store_lights :: "light list \<Rightarrow> ui_state \<Rightarrow> ui_state" where
  "store_lights lightsArray s =
     (let s1 = s\<lparr> lights := lightsArray \<rparr> in
      if 0 < length lightsArray then
        (let s2 = s1\<lparr> lightsOn := anyOn lightsArray \<rparr>;
             onLights = filter l_on lightsArray
         in if 0 < length onLights then s2\<lparr> brightness := avgBrightness onLights \<rparr> else s2)
      else s1)"

text \<open>\<open>lightData?.data ?? []\<close>\<close>

definition roster :: "light list option \<Rightarrow> light list" where
  "roster lightData = (case lightData of None \<Rightarrow> [] | Some ls \<Rightarrow> ls)"

text \<open>\<open>fetchJson("/clip/v2/resource/smart_scene").catch(() => ({data: []}))\<close>\<close>

definition smart_or_empty :: "exn + jsval \<Rightarrow> jsval" where
  "smart_or_empty smartR =
     (case smartR of Inl _ \<Rightarrow> Some (JObj [(''data'', JArr [])]) | Inr v \<Rightarrow> v)"

text \<open>
  The body of the \<open>try\<close> of the load effect, from the outcomes of the three fetches.
  When the scene fetch and the light fetch both reject, \<open>Promise.all\<close> rejects with the
  earlier of the two; the model takes the scene fetch's.
\<close>

definition load_body ::
  "(json \<Rightarrow> jsnum) \<Rightarrow> (jsval \<Rightarrow> jsval \<Rightarrow> int) \<Rightarrow> exn + jsval \<Rightarrow> exn + jsval
     \<Rightarrow> exn + light list option \<Rightarrow> ui_state \<Rightarrow> exn + ui_state" where
  "load_body ext cmp sceneR smartR lightR s =
     thenE sceneR (\<lambda>sceneData.
     thenE lightR (\<lambda>lightData.
     thenE (data_map sceneData (regularScene ext)) (\<lambda>regularScenes.
     thenE (data_map (smart_or_empty smartR) smartScene) (\<lambda>smartScenes.
       Inr (store_lights (roster lightData)
              (s\<lparr> scenes := js_sort (by_name cmp) (regularScenes @ smartScenes) \<rparr>))))))"

definition load_done ::
  "(json \<Rightarrow> jsnum) \<Rightarrow> (jsval \<Rightarrow> jsval \<Rightarrow> int) \<Rightarrow> exn + jsval \<Rightarrow> exn + jsval
     \<Rightarrow> exn + light list option \<Rightarrow> ui_state \<Rightarrow> ui_state" where
  "load_done ext cmp sceneR smartR lightR s =
     (case load_body ext cmp sceneR smartR lightR s of
        Inl (Exn m) \<Rightarrow> s\<lparr> error := Some m, loading := False \<rparr>
      | Inr s' \<Rightarrow> s'\<lparr> loading := False \<rparr>)"

subsection \<open>Keyboard handler and completions\<close>

record key =
  input :: string
  escape :: bool
  upArrow :: bool
  downArrow :: bool
  return :: bool

text \<open>What a handler sends out: process exit, bridge requests, the message timer.\<close>

datatype effect =
    Exit
  | PutPower string bool
  | PutBrightness string real
  | RecallScene jsval string
  | SetTimeout nat

text \<open>\<open>xs[i]\<close>: \<open>undefined\<close> outside the array.\<close>

definition at_index :: "'a list \<Rightarrow> int \<Rightarrow> 'a option" where
  "at_index xs i = (if 0 \<le> i \<and> i < int (length xs) then Some (xs ! nat i) else None)"

text \<open>\<open>doActivate\<close> up to its first \<open>await\<close>.\<close>

definition doActivate :: "ui_state \<Rightarrow> scene option \<Rightarrow> ui_state \<times> effect list" where
  "doActivate s sc =
     (case sc of None \<Rightarrow> (s, [])
      | Some c \<Rightarrow> (s\<lparr> message := [] \<rparr>, [RecallScene (sc_id c) (sc_type c)]))"

text \<open>\<open>doSetBrightness\<close> up to its \<open>await\<close>.\<close>

definition doSetBrightness :: "ui_state \<Rightarrow> real \<Rightarrow> ui_state \<times> effect list" where
  "doSetBrightness s level =
     (let clampedLevel = max 1 (min 100 level)
      in (s\<lparr> brightness := clampedLevel \<rparr>,
          map (\<lambda>l. PutBrightness (l_id l) clampedLevel) (lights s)))"

text \<open>\<open>toggleAllLights\<close> up to its first \<open>await\<close>: the target and the requests.\<close>

definition targetState :: "ui_state \<Rightarrow> bool" where
  "targetState s = (\<not> anyOn (lights s))"

definition toggleAllLights :: "ui_state \<Rightarrow> ui_state \<times> effect list" where
  "toggleAllLights s = (s, map (\<lambda>l. PutPower (l_id l) (targetState s)) (lights s))"

definition handle_key :: "ui_state \<Rightarrow> key \<Rightarrow> ui_state \<times> effect list" where
  "handle_key s k =
     (if escape k \<or> input k = ''q'' then (s, [Exit])
      else if input k = ''s'' \<or> input k = ''S'' then
        (s\<lparr> setMode := \<not> setMode s, brightnessMode := False \<rparr>, [])
      else if input k = ''b'' \<or> input k = ''B'' then
        (s\<lparr> brightnessMode := \<not> brightnessMode s, setMode := False \<rparr>, [])
      else if input k = ''o'' \<or> input k = ''O'' then toggleAllLights s
      else if brightnessMode s then
        (if upArrow k then doSetBrightness s (brightness s + 1)
         else if downArrow k then doSetBrightness s (brightness s - 1)
         else (s, []))
      else if downArrow k then
        (let newIdx = min (selected s + 1) (max 0 (int (length (scenes s)) - 1));
             s' = s\<lparr> selected := newIdx \<rparr>
         in if setMode s \<and> at_index (scenes s) newIdx \<noteq> None
            then doActivate s' (at_index (scenes s) newIdx) else (s', []))
      else if upArrow k then
        (let newIdx = max (selected s - 1) 0;
             s' = s\<lparr> selected := newIdx \<rparr>
         in if setMode s \<and> at_index (scenes s) newIdx \<noteq> None
            then doActivate s' (at_index (scenes s) newIdx) else (s', []))
      else if return k \<and> length (scenes s) \<noteq> 0 then doActivate s (at_index (scenes s) (selected s))
      else (s, []))"

text \<open>
  The events after mount: a key press, and the completion of each asynchronous handler.
  \<open>ActivateDone\<close> carries the outcome of the recall, the settle delay and the reload;
  \<open>BrightnessDone\<close> the rejection of the joint brightness requests, if any;
  \<open>ToggleDone\<close> the target computed at the key press and the outcome of the joint power
  requests and the reload; \<open>TimerFired\<close> is the timeout set by a successful toggle.
  Every handler reads the state the previous event left: the component is rendered
  again between two events.
\<close>

datatype event =
    KeyPress key
  | ActivateDone "exn + light list option"
  | BrightnessDone "exn option"
  | ToggleDone bool "exn + light list option"
  | TimerFired

fun step :: "ui_state \<Rightarrow> event \<Rightarrow> ui_state \<times> effect list" where
  "step s (KeyPress k) = handle_key s k"
| "step s (ActivateDone (Inr lightData)) = (store_lights (roster lightData) s, [])"
| "step s (ActivateDone (Inl (Exn m))) = (s\<lparr> message := ''Failed to activate: '' @ m \<rparr>, [])"
| "step s (BrightnessDone None) = (s, [])"
| "step s (BrightnessDone (Some (Exn m))) =
     (s\<lparr> message := ''Failed to set brightness: '' @ m \<rparr>, [])"
| "step s (ToggleDone target (Inr lightData)) =
     (s\<lparr> lights := roster lightData, lightsOn := target,
         message := (if target then ''On'' else ''Off'') \<rparr>, [SetTimeout 2000])"
| "step s (ToggleDone target (Inl (Exn m))) =
     (s\<lparr> message := ''Failed to toggle lights: '' @ m \<rparr>, [])"
| "step s TimerFired = (s\<lparr> message := [] \<rparr>, [])"

fun run :: "ui_state \<Rightarrow> event list \<Rightarrow> ui_state" where
  "run s [] = s"
| "run s (e # es) = run (fst (step s e)) es"

text \<open>
  A session: events before the load settles, the load (it runs once, on mount), events
  after it.
\<close>

definition session ::
  "(json \<Rightarrow> jsnum) \<Rightarrow> (jsval \<Rightarrow> jsval \<Rightarrow> int) \<Rightarrow> event list \<Rightarrow> exn + jsval \<Rightarrow> exn + jsval
     \<Rightarrow> exn + light list option \<Rightarrow> event list \<Rightarrow> ui_state" where
  "session ext cmp before sceneR smartR lightR after =
     run (load_done ext cmp sceneR smartR lightR (run init before)) after"

subsection \<open>Presentation\<close>

text \<open>Which of the four returns of the component is rendered.\<close>

datatype view = LoadingView | ErrorView string | NoScenesView | MainView

definition render :: "ui_state \<Rightarrow> view" where
  "render s =
     (if loading s then LoadingView
      else case error s of
        Some m \<Rightarrow> (if m \<noteq> [] then ErrorView m
                   else if length (scenes s) = 0 then NoScenesView else MainView)
      | None \<Rightarrow> if length (scenes s) = 0 then NoScenesView else MainView)"

section \<open>Notions of the specification\<close>

text \<open>A color value: \<open>#\<close> followed by six lowercase hexadecimal digits.\<close>

definition hex_digits :: "string \<Rightarrow> bool" where
  "hex_digits s = list_all (\<lambda>c. c \<in> set ''0123456789abcdef'') s"


text \<open>
  The black-body approximation in the words of the specification, over the reals: the
  temperature parameter, the three channels by threshold, and a channel clamped to
  \<open>[0,255]\<close>, rounded and written as two hexadecimal digits.
\<close>

definition temperature :: "real \<Rightarrow> real" where
  "temperature mirek = (1000000 / mirek) / 100"

definition black_body :: "real \<Rightarrow> real \<times> real \<times> real" where
  "black_body t =
     (if t \<le> 66 then
        (255,
         99.4708025861 * ln t - 161.1195681661,
         if t \<le> 19 then 0 else 138.5177312231 * ln (t - 10) - 305.0447927307)
      else
        (329.698727446 * (t - 60) powr (- 0.1332047592),
         288.1221695283 * (t - 60) powr (- 0.0755148492),
         255))"

definition byte_hex :: "real \<Rightarrow> string" where
  "byte_hex v = padStart 2 CHR ''0'' (hex_of_nat (nat (round (max 0 (min 255 v)))))"

text \<open>An arrow key as the terminal delivers it: no character, no escape.\<close>

definition arrow_key :: "key \<Rightarrow> bool" where
  "arrow_key k = (input k = [] \<and> \<not> escape k \<and> (upArrow k \<or> downArrow k))"

text \<open>The selection index is valid: inside a non-empty list, 0 on the empty one.\<close>

definition valid_selection :: "ui_state \<Rightarrow> bool" where
  "valid_selection s =
     (if scenes s = [] then selected s = 0
      else 0 \<le> selected s \<and> selected s < int (length (scenes s)))"

text \<open>
  A comparator for examples: the order of the character codes on strings, every other
  value read as the empty string. On the names used below it agrees with
  \<open>localeCompare\<close>.
\<close>

fun code_order :: "nat list \<Rightarrow> nat list \<Rightarrow> int" where
  "code_order [] [] = 0"
| "code_order [] (y # ys) = - 1"
| "code_order (x # xs) [] = 1"
| "code_order (x # xs) (y # ys) = (if x < y then - 1 else if y < x then 1 else code_order xs ys)"

definition name_codes :: "jsval \<Rightarrow> nat list" where
  "name_codes v = (case v of Some (JStr s) \<Rightarrow> map of_char s | _ \<Rightarrow> [])"

definition example_compare :: "jsval \<Rightarrow> jsval \<Rightarrow> int" where
  "example_compare a b = code_order (name_codes a) (name_codes b)"


text \<open>
  A scene record as the specification describes the input of color extraction: an
  object whose \<open>palette.color\<close>, \<open>palette.color_temperature\<close> and \<open>actions\<close> are each
  absent (falsy) or an array.
\<close>

definition scene_record :: "jsval \<Rightarrow> bool" where
  "scene_record scene =
     (scene \<noteq> None \<and> scene \<noteq> Some JNull
      \<and> array_or_falsy (optget (optget scene ''palette'') ''color'')
      \<and> array_or_falsy (optget (optget scene ''palette'') ''color_temperature'')
      \<and> array_or_falsy (optget scene ''actions''))"

definition extract_spec :: "(json \<Rightarrow> jsnum) \<Rightarrow> jsval \<Rightarrow> string list" where
  "extract_spec ext scene =
     (if dedupe_spec (converted ext scene) = [] then [''#444444'']
      else dedupe_spec (converted ext scene))"

text \<open>
  Example data: a color sample that converts to black (brightness 0), a temperature
  sample that converts to pure red (a very low temperature), and two scenes as the bridge
  lists them.
\<close>

definition black_sample :: json where
  "black_sample =
     JObj [(''color'', JObj [(''xy'', JObj [(''x'', JNum (Fin 0.3)), (''y'', JNum (Fin 0.3))])]),
           (''dimming'', JObj [(''brightness'', JNum (Fin 0))])]"

definition red_sample :: json where
  "red_sample = JObj [(''color_temperature'', JObj [(''mirek'', JNum (Fin 1000000))])]"

definition evening :: json where
  "evening =
     JObj [(''id'', JStr ''e1''),
           (''metadata'', JObj [(''name'', JStr ''Evening'')]),
           (''palette'', JObj [(''color'', JArr [black_sample, black_sample]),
                               (''color_temperature'', JArr [red_sample])]),
           (''actions'', JArr [JObj [(''action'', black_sample)], JObj [(''action'', red_sample)]])]"

definition bright :: json where
  "bright = JObj [(''id'', JStr ''b1''), (''metadata'', JObj [(''name'', JStr ''Bright'')])]"

text \<open>The scene listing of the scenario: \<open>Evening\<close> before \<open>Bright\<close>.\<close>

definition gateway_scenes :: jsval where
  "gateway_scenes = Some (JObj [(''data'', JArr [evening, bright])])"

text \<open>Keys for examples: a character key and the two arrows.\<close>

definition char_key :: "string \<Rightarrow> key" where
  "char_key c = \<lparr> input = c, escape = False, upArrow = False, downArrow = False, return = False \<rparr>"

definition up_key :: key where
  "up_key = \<lparr> input = [], escape = False, upArrow = True, downArrow = False, return = False \<rparr>"

definition down_key :: key where
  "down_key = \<lparr> input = [], escape = False, upArrow = False, downArrow = True, return = False \<rparr>"

text \<open>
  States for examples: the state after a load whose scene fetch was rejected, and the
  state after a load that found one lamp, on at brightness 40, and no scene.
\<close>

definition failed_load :: ui_state where
  "failed_load =
     load_done (\<lambda>_. NaN) example_compare (Inl (Exn ''HTTP 403: Forbidden'')) (Inr None) (Inr None) init"

definition lamp :: "real \<Rightarrow> light" where
  "lamp b = \<lparr> l_id = ''lamp-1'', l_on = True, l_brightness = Some b \<rparr>"

definition one_lamp_on :: ui_state where
  "one_lamp_on =
     load_done (\<lambda>_. NaN) example_compare (Inr None) (Inr None) (Inr (Some [lamp 40])) init"

text \<open>The two modes are not both active.\<close>

definition exclusive :: "ui_state \<Rightarrow> bool" where
  "exclusive s = (\<not> (setMode s \<and> brightnessMode s))"

text \<open>
  More states for examples: after the load of the two scenes of the scenario (the
  smart-scene fetch rejected, no lamp), and a state in brightness mode at brightness 2.
\<close>

definition two_scenes :: ui_state where
  "two_scenes =
     load_done (\<lambda>_. NaN) example_compare (Inr gateway_scenes) (Inl (Exn ''HTTP 404: Not Found''))
       (Inr None) init"

definition dimming :: ui_state where
  "dimming = init\<lparr> brightnessMode := True, brightness := 2, lights := [lamp 2] \<rparr>"

text \<open>
  The state after \<open>o\<close> was pressed in \<open>one_lamp_on\<close> and the toggle completed with a
  reloaded roster in which the lamp is still on, now at brightness 80.
\<close>

definition after_toggle :: ui_state where
  "after_toggle =
     fst (step one_lamp_on (ToggleDone (targetState one_lamp_on) (Inr (Some [lamp 80]))))"

section \<open>Properties of the number rendering\<close>

declare hex_of_nat.simps [simp del]

lemma hexdigit_ok: "d < 16 \<Longrightarrow> hex_digits [hexdigit d]"
proof -
  assume "d < 16"
  then have "d = 0 \<or> d = 1 \<or> d = 2 \<or> d = 3 \<or> d = 4 \<or> d = 5 \<or> d = 6 \<or> d = 7 \<or> d = 8 \<or> d = 9
      \<or> d = 10 \<or> d = 11 \<or> d = 12 \<or> d = 13 \<or> d = 14 \<or> d = 15" by arith
  then show ?thesis unfolding hexdigit_def hex_digits_def by auto
qed

lemma hex_of_nat_small: "n < 16 \<Longrightarrow> hex_of_nat n = [hexdigit n]"
  by (simp add: hex_of_nat.simps)

lemma hex_of_nat_byte:
  assumes "n < 256"
  shows "hex_digits (hex_of_nat n) \<and> (length (hex_of_nat n) = 1 \<or> length (hex_of_nat n) = 2)"
proof (cases "n < 16")
  case True
  then show ?thesis by (simp add: hex_of_nat_small hexdigit_ok)
next
  case False
  with assms have d: "n div 16 < 16" by simp
  have m: "n mod 16 < 16" by simp
  have "hex_of_nat n = [hexdigit (n div 16), hexdigit (n mod 16)]"
    using False d by (simp add: hex_of_nat.simps[of n] hex_of_nat_small)
  then show ?thesis using hexdigit_ok[OF d] hexdigit_ok[OF m]
    by (simp add: hex_digits_def)
qed

lemma padStart_byte:
  assumes "n < 256"
  shows "hex_digits (padStart 2 CHR ''0'' (hex_of_nat n)) \<and> length (padStart 2 CHR ''0'' (hex_of_nat n)) = 2"
  using hex_of_nat_byte[OF assms]
  by (auto simp: padStart_def hex_digits_def)

lemma toString16_byte:
  assumes "0 \<le> k" "k \<le> 255"
  shows "hex_digits (padStart 2 CHR ''0'' (toString16 (Fin (of_int k)))) \<and>
         length (padStart 2 CHR ''0'' (toString16 (Fin (of_int k)))) = 2"
proof -
  have "nat k < 256" using assms by simp
  from padStart_byte[OF this] show ?thesis using assms by simp
qed

lemma toHex_ok:
  assumes "v \<noteq> NaN"
  shows "hex_digits (toHex v) \<and> length (toHex v) = 2"
proof -
  obtain k :: int where k: "Math_max (Fin 0) (Math_min (Fin 255) (Math_round v)) = Fin (of_int k)"
      "0 \<le> k" "k \<le> 255"
  proof (cases v)
    case (Fin a)
    let ?n = "\<lfloor>a + 1 / 2\<rfloor>"
    have "Math_max (Fin 0) (Math_min (Fin 255) (Math_round v)) = Fin (of_int (max 0 (min 255 ?n)))"
      using Fin by (auto simp: Math_max_def Math_min_def max_def min_def)
    then show ?thesis using that[of "max 0 (min 255 ?n)"] by simp
  next
    case PInf
    then show ?thesis using that[of 255] by (simp add: Math_max_def Math_min_def)
  next
    case NInf
    then show ?thesis using that[of 0] by (simp add: Math_max_def Math_min_def)
  next
    case NaN
    with assms show ?thesis by simp
  qed
  show ?thesis unfolding toHex_def k(1) using toString16_byte[OF k(2,3)] .
qed





lemma round_clamp: "round (max 0 (min 255 (v::real))) = max 0 (min 255 \<lfloor>v + 1 / 2\<rfloor>)"
proof -
  consider "v < 0" | "0 \<le> v \<and> v \<le> 255" | "255 < v" by linarith
  then show ?thesis
  proof cases
    case 1
    then have "\<lfloor>v + 1 / 2\<rfloor> \<le> 0" by (simp add: floor_le_iff)
    then have "max 0 (min 255 \<lfloor>v + 1 / 2\<rfloor>) = 0" by simp
    moreover have "max 0 (min 255 v) = 0" using 1 by simp
    ultimately show ?thesis by simp
  next
    case 2
    then have "0 \<le> \<lfloor>v + 1 / 2\<rfloor>" by simp
    moreover have "\<lfloor>v + 1 / 2\<rfloor> \<le> 255" using 2 by (simp add: floor_le_iff)
    ultimately have "max 0 (min 255 \<lfloor>v + 1 / 2\<rfloor>) = \<lfloor>v + 1 / 2\<rfloor>" by simp
    moreover have "max 0 (min 255 v) = v" using 2 by simp
    ultimately show ?thesis by (simp add: round_def)
  next
    case 3
    then have "255 \<le> \<lfloor>v + 1 / 2\<rfloor>" by (simp add: le_floor_iff)
    then have "max 0 (min 255 \<lfloor>v + 1 / 2\<rfloor>) = 255" by simp
    moreover have "max 0 (min 255 v) = 255" using 3 by simp
    ultimately show ?thesis by simp
  qed
qed

lemma toHex_Fin: "toHex (Fin v) = byte_hex v"
proof -
  let ?k = "max 0 (min 255 \<lfloor>v + 1 / 2\<rfloor>)"
  have "Math_max (Fin 0) (Math_min (Fin 255) (Math_round (Fin v))) = Fin (of_int ?k)"
    by (auto simp: Math_max_def Math_min_def max_def min_def)
  moreover have "toString16 (Fin (of_int ?k)) = hex_of_nat (nat ?k)" by simp
  ultimately show ?thesis by (simp add: toHex_def byte_hex_def round_clamp)
qed

lemma byte_hex_255: "byte_hex 255 = ''ff''"
  by (simp add: byte_hex_def padStart_def hex_of_nat.simps hexdigit_def)

lemma byte_hex_0: "byte_hex 0 = ''00''"
  by (simp add: byte_hex_def padStart_def hex_of_nat.simps hexdigit_def)





lemma gamma_0: "gamma (Fin 0) = Fin 0"
  by (simp add: gamma_def)

lemma clamp_0: "clamp (Fin 0) = Fin 0"
  by (simp add: clamp_def Math_max_def Math_min_def)

lemma channel_hex_0: "channel_hex (Fin 0) = ''00''"
  by (simp add: channel_hex_def padStart_def hex_of_nat.simps hexdigit_def)

section \<open>Colorimetry: rejection, output format, the black-body formula\<close>








lemma mirekToHex_Fin:
  assumes "0 < mirek"
  shows "mirekToHex (Some (JNum (Fin mirek))) =
    (case black_body (temperature mirek) of
       (r, g, b) \<Rightarrow> Some (''#'' @ byte_hex r @ byte_hex g @ byte_hex b))"
proof -
  have t: "0 < 10000 / mirek" using assms by simp
  show ?thesis
  proof (cases "10000 / mirek \<le> 66")
    case True
    then show ?thesis using assms t
      by (simp add: mirekToHex_def black_body_def temperature_def Let_def js_sub_def toHex_Fin)
  next
    case False
    then have "0 < 10000 / mirek - 60" by simp
    with False show ?thesis using assms t
      by (simp add: mirekToHex_def black_body_def temperature_def Let_def js_sub_def toHex_Fin)
  qed
qed

lemma byte_hex_ok: "hex_digits (byte_hex v) \<and> length (byte_hex v) = 2"
  using toHex_ok[of "Fin v"] by (simp add: toHex_Fin)



text \<open>
  C5. For a finite \<open>mirek > 0\<close> the result is \<open>#\<close> and the three channels of the
  black-body approximation at \<open>temp = (1000000 / mirek) / 100\<close>, each clamped to
  \<open>[0,255]\<close>, rounded and written with two hexadecimal digits: red is \<open>ff\<close> when
  \<open>temp \<le> 66\<close>, blue is \<open>00\<close> when \<open>temp \<le> 19\<close>, blue is \<open>ff\<close> when \<open>temp > 66\<close>.
\<close>

theorem mirekToHex_black_body:
  assumes "0 < mirek"
  shows "mirekToHex (Some (JNum (Fin mirek))) =
      (case black_body (temperature mirek) of
         (r, g, b) \<Rightarrow> Some (''#'' @ byte_hex r @ byte_hex g @ byte_hex b))
    \<and> (temperature mirek \<le> 66 \<longrightarrow>
         (\<exists>g b. mirekToHex (Some (JNum (Fin mirek))) = Some (''#ff'' @ g @ b) \<and> length g = 2))
    \<and> (temperature mirek \<le> 19 \<longrightarrow>
         (\<exists>g. mirekToHex (Some (JNum (Fin mirek))) = Some (''#ff'' @ g @ ''00'') \<and> length g = 2))
    \<and> (66 < temperature mirek \<longrightarrow>
         (\<exists>r g. mirekToHex (Some (JNum (Fin mirek))) = Some (''#'' @ r @ g @ ''ff'')
            \<and> length r = 2 \<and> length g = 2))"
proof (intro conjI impI)
  show "mirekToHex (Some (JNum (Fin mirek))) =
      (case black_body (temperature mirek) of
         (r, g, b) \<Rightarrow> Some (''#'' @ byte_hex r @ byte_hex g @ byte_hex b))"
    by (rule mirekToHex_Fin[OF assms])
next
  assume "temperature mirek \<le> 66"
  then show "\<exists>g b. mirekToHex (Some (JNum (Fin mirek))) = Some (''#ff'' @ g @ b) \<and> length g = 2"
    using mirekToHex_Fin[OF assms] byte_hex_ok
    by (auto simp: black_body_def byte_hex_255)
next
  assume "temperature mirek \<le> 19"
  then show "\<exists>g. mirekToHex (Some (JNum (Fin mirek))) = Some (''#ff'' @ g @ ''00'') \<and> length g = 2"
    using mirekToHex_Fin[OF assms] byte_hex_ok
    by (auto simp: black_body_def byte_hex_255 byte_hex_0)
next
  assume "66 < temperature mirek"
  then show "\<exists>r g. mirekToHex (Some (JNum (Fin mirek))) = Some (''#'' @ r @ g @ ''ff'')
            \<and> length r = 2 \<and> length g = 2"
    using mirekToHex_Fin[OF assms] byte_hex_ok
    by (auto simp: black_body_def byte_hex_255)
qed

theorem mirekToHex_black_body_witness:
  "temperature 500 = 20
   \<and> mirekToHex (Some (JNum (Fin 500))) =
       Some (''#ff'' @ byte_hex (99.4708025861 * ln 20 - 161.1195681661)
               @ byte_hex (138.5177312231 * ln 10 - 305.0447927307))"
  using mirekToHex_black_body[of 500]
  by (simp add: temperature_def black_body_def byte_hex_255)




section \<open>Color extraction: order, deduplication, cap and fallback\<close>

lemma filter_seen_insert:
  "filter (\<lambda>d. toLowerCase d \<noteq> k) (filter (\<lambda>d. toLowerCase d \<notin> seen) xs)
     = filter (\<lambda>d. toLowerCase d \<notin> insert k seen) xs"
  by (induction xs) auto

lemma present_simps:
  "present [] = []"
  "present (None # cs) = present cs"
  "present (Some c # cs) = (if c = [] then present cs else c # present cs)"
  by (simp_all add: present_def)

lemma dedupe_loop_spec:
  "length out < limit \<Longrightarrow>
   dedupe_loop limit seen out cs =
     out @ take (limit - length out)
             (first_seen (filter (\<lambda>c. toLowerCase c \<notin> seen) (present cs)))"
proof (induction cs arbitrary: seen out)
  case Nil
  then show ?case by (simp add: present_simps)
next
  case (Cons c cs)
  show ?case
  proof (cases c)
    case None
    then show ?thesis using Cons by (simp add: present_simps)
  next
    case (Some color)
    show ?thesis
    proof (cases "color = [] \<or> toLowerCase color \<in> seen")
      case True
      then show ?thesis using Some Cons by (auto simp: present_simps)
    next
      case False
      show ?thesis
      proof (cases "limit \<le> Suc (length out)")
        case True
        with Cons.prems have "limit - length out = Suc 0" by simp
        then show ?thesis using Some False True by (simp add: present_simps)
      next
        case more: False
        then have l: "length (out @ [color]) < limit" by simp
        have n: "limit - length out = Suc (limit - length (out @ [color]))" using more by simp
        show ?thesis
          using Some False more Cons.IH[OF l, of "insert (toLowerCase color) seen"]
          by (simp add: present_simps filter_seen_insert n del: length_append filter_filter)
      qed
    qed
  qed
qed

lemma dedupeColors_spec: "dedupeColors cs 6 = dedupe_spec cs"
  using dedupe_loop_spec[of "[]" 6 "{}" cs] by (simp add: dedupeColors_def dedupe_spec_def)



lemma getprop_present:
  "v \<noteq> None \<Longrightarrow> v \<noteq> Some JNull \<Longrightarrow> getprop v k = Inr (optget v k)"
  by (auto simp: getprop_def optget_def split: option.splits json.splits)

lemma getprop_nullish:
  "v = None \<or> v = Some JNull \<Longrightarrow> getprop v k = Inl (Exn ''TypeError'')"
  by (auto simp: getprop_def)

lemma or_empty_map_entries:
  "array_or_falsy v \<Longrightarrow> or_empty_map v f = Inr (map f (entries v))"
  by (auto simp: array_or_falsy_def or_empty_map_def entries_def truthy_def
      split: option.splits json.splits)

lemma or_empty_map_error:
  "\<not> array_or_falsy v \<Longrightarrow> or_empty_map v f = Inl (Exn ''TypeError'')"
  by (auto simp: array_or_falsy_def or_empty_map_def split: option.splits json.splits)

lemma falsy_optget: "\<not> truthy p \<Longrightarrow> optget p k = None"
  by (auto simp: truthy_def optget_def property_def split: option.splits json.splits)

lemma palette_of_present:
  assumes "scene \<noteq> None" "scene \<noteq> Some JNull"
  shows "\<exists>p. palette_of scene = Inr p \<and> p \<noteq> None \<and> p \<noteq> Some JNull
           \<and> (\<forall>k. optget p k = optget (optget scene ''palette'') k)"
proof (cases "truthy (optget scene ''palette'')")
  case True
  then have "optget scene ''palette'' \<noteq> None \<and> optget scene ''palette'' \<noteq> Some JNull"
    by (auto simp: truthy_def split: option.splits json.splits)
  with True show ?thesis
    using assms by (simp add: palette_of_def thenE_def getprop_present)
next
  case False
  have "optget (Some (JObj [])) k = None" for k
    by (simp add: optget_def property_def)
  with False show ?thesis
    using assms by (simp add: palette_of_def thenE_def getprop_present falsy_optget)
qed

lemma extractColors_record:
  assumes "scene_record scene"
  shows "extractColors ext scene = Inr (extract_spec ext scene)"
proof -
  from assms have sc: "scene \<noteq> None" "scene \<noteq> Some JNull"
    and a1: "array_or_falsy (optget (optget scene ''palette'') ''color'')"
    and a2: "array_or_falsy (optget (optget scene ''palette'') ''color_temperature'')"
    and a3: "array_or_falsy (optget scene ''actions'')"
    by (simp_all add: scene_record_def)
  obtain p where p: "palette_of scene = Inr p" "p \<noteq> None" "p \<noteq> Some JNull"
      "\<And>k. optget p k = optget (optget scene ''palette'') k"
    using palette_of_present[OF sc] by blast
  show ?thesis
    unfolding extractColors_def
    by (simp add: p getprop_present sc thenE_def or_empty_map_entries a1 a2 a3 Let_def
        dedupeColors_spec extract_spec_def converted_def)
qed

text \<open>Off the scene records the first \<open>.map\<close> on a non-array (or the read of
  \<open>scene.palette\<close> on \<open>null\<close>) throws.\<close>

lemma extractColors_malformed:
  assumes "\<not> scene_record scene"
  shows "extractColors ext scene = Inl (Exn ''TypeError'')"
proof (cases "scene = None \<or> scene = Some JNull")
  case True
  then show ?thesis
    by (auto simp: extractColors_def palette_of_def thenE_def getprop_nullish)
next
  case False
  then have sc: "scene \<noteq> None" "scene \<noteq> Some JNull" by simp_all
  obtain p where p: "palette_of scene = Inr p" "p \<noteq> None" "p \<noteq> Some JNull"
      "\<And>k. optget p k = optget (optget scene ''palette'') k"
    using palette_of_present[OF sc] by blast
  let ?a1 = "array_or_falsy (optget (optget scene ''palette'') ''color'')"
  let ?a2 = "array_or_falsy (optget (optget scene ''palette'') ''color_temperature'')"
  let ?a3 = "array_or_falsy (optget scene ''actions'')"
  from assms sc consider "\<not> ?a1" | "?a1" "\<not> ?a2" | "?a1" "?a2" "\<not> ?a3"
    by (auto simp: scene_record_def)
  then show ?thesis
  proof cases
    case 1
    then show ?thesis
      unfolding extractColors_def
      by (simp add: p getprop_present sc thenE_def or_empty_map_error)
  next
    case 2
    then show ?thesis
      unfolding extractColors_def
      by (simp add: p getprop_present sc thenE_def or_empty_map_entries or_empty_map_error)
  next
    case 3
    then show ?thesis
      unfolding extractColors_def
      by (simp add: p getprop_present sc thenE_def or_empty_map_entries or_empty_map_error)
  qed
qed


lemma diff_nonpos_nonneg: "a \<le> 0 \<Longrightarrow> 0 \<le> b \<Longrightarrow> a - b \<le> (0::real)"
  by linarith

lemma byte_hex_negative: "v \<le> 0 \<Longrightarrow> byte_hex v = ''00''"
proof -
  assume "v \<le> 0"
  then have "max 0 (min 255 v) = 0" by simp
  then show ?thesis by (simp add: byte_hex_def padStart_def hex_of_nat.simps hexdigit_def)
qed

lemma mirekToHex_1000000: "mirekToHex (Some (JNum (Fin 1000000))) = Some ''#ff0000''"
proof -
  have t: "temperature 1000000 = 1 / 100" by (simp add: temperature_def)
  have l: "ln (1 / 100 :: real) < 0" by (rule ln_less_zero) simp_all
  have "99.4708025861 * ln (1 / 100 :: real) \<le> 0"
    by (rule mult_nonneg_nonpos) (use l in simp_all)
  moreover have "(0::real) \<le> 161.1195681661" by simp
  ultimately have "99.4708025861 * ln (1 / 100 :: real) - 161.1195681661 \<le> 0"
    by (rule diff_nonpos_nonneg)
  then have g: "byte_hex (99.4708025861 * ln (1 / 100 :: real) - 161.1195681661) = ''00''"
    by (rule byte_hex_negative)
  have "black_body (1 / 100) = (255, 99.4708025861 * ln (1 / 100 :: real) - 161.1195681661, 0)"
    by (simp add: black_body_def)
  then show ?thesis
    using mirekToHex_Fin[of 1000000] g by (simp add: t byte_hex_255 byte_hex_0)
qed


lemma paletteColor_black: "paletteColor ext (Some black_sample) = Some ''#000000''"
  by (simp add: black_sample_def paletteColor_def optget_def property_def xyBriToHex_def Let_def
      js_sub_def ToNumber_def gamma_0 clamp_0 channel_hex_0)

lemma actionColor_black:
  "actionColor ext (Some (JObj [(''action'', black_sample)])) = Some ''#000000''"
  by (simp add: black_sample_def actionColor_def optget_def property_def xyBriToHex_def Let_def
      js_sub_def ToNumber_def gamma_0 clamp_0 channel_hex_0)

lemma paletteTemperature_red: "paletteTemperature (Some red_sample) = Some ''#ff0000''"
  by (simp add: red_sample_def paletteTemperature_def optget_def property_def mirekToHex_1000000)

lemma actionTemperature_red:
  "actionTemperature (Some (JObj [(''action'', red_sample)])) = Some ''#ff0000''"
  by (simp add: red_sample_def actionTemperature_def optget_def property_def mirekToHex_1000000)

lemma actionColor_red: "actionColor ext (Some (JObj [(''action'', red_sample)])) = None"
  by (simp add: red_sample_def actionColor_def optget_def property_def xyBriToHex_def)

lemma actionTemperature_black:
  "actionTemperature (Some (JObj [(''action'', black_sample)])) = None"
  by (simp add: black_sample_def actionTemperature_def optget_def property_def mirekToHex_def)

lemma converted_evening:
  "converted ext (Some evening) =
     [Some ''#000000'', Some ''#000000'', Some ''#ff0000'', Some ''#000000'', None, None,
      Some ''#ff0000'']"
  by (simp add: converted_def evening_def optget_def property_def entries_def truthy_def
      paletteColor_black actionColor_black paletteTemperature_red actionTemperature_red
      actionColor_red actionTemperature_black)

lemma scene_record_evening: "scene_record (Some evening)"
  by (simp add: scene_record_def evening_def optget_def property_def array_or_falsy_def)

lemma toLowerCase_black: "toLowerCase ''#000000'' = ''#000000''"
  by (simp add: toLowerCase_def lower_char_def)

lemma toLowerCase_red: "toLowerCase ''#ff0000'' = ''#ff0000''"
  by (simp add: toLowerCase_def lower_char_def)

lemma extract_spec_evening: "extract_spec ext (Some evening) = [''#000000'', ''#ff0000'']"
  by (simp add: extract_spec_def dedupe_spec_def converted_evening present_def
      toLowerCase_black toLowerCase_red)

lemma converted_bright: "converted ext (Some bright) = []"
  by (simp add: converted_def bright_def optget_def property_def entries_def)

lemma scene_record_bright: "scene_record (Some bright)"
  by (simp add: scene_record_def bright_def optget_def property_def array_or_falsy_def truthy_def)

lemma extract_spec_bright: "extract_spec ext (Some bright) = [''#444444'']"
  by (simp add: extract_spec_def dedupe_spec_def converted_bright present_def)


section \<open>Initial load: the sorted scene list\<close>


















lemma load_done_success:
  assumes "data_map sceneData (regularScene ext) = Inr regular"
    and "data_map (smart_or_empty smartR) smartScene = Inr smart"
  shows "load_done ext cmp (Inr sceneData) smartR (Inr lightData) s =
     (store_lights (roster lightData)
        (s\<lparr> scenes := js_sort (by_name cmp) (regular @ smart) \<rparr>))\<lparr> loading := False \<rparr>"
  using assms
  by (cases smartR) (simp_all add: load_done_def load_body_def thenE_def smart_or_empty_def)


lemma regular_example:
  "data_map gateway_scenes (regularScene ext) =
     Inr [\<lparr> sc_id = Some (JStr ''e1''), sc_name = Some (JStr ''Evening''),
             sc_colors = [''#000000'', ''#ff0000''], sc_type = ''scene'' \<rparr>,
          \<lparr> sc_id = Some (JStr ''b1''), sc_name = Some (JStr ''Bright''),
             sc_colors = [''#444444''], sc_type = ''scene'' \<rparr>]"
proof -
  have e: "regularScene ext (Some evening) =
      Inr \<lparr> sc_id = Some (JStr ''e1''), sc_name = Some (JStr ''Evening''),
             sc_colors = [''#000000'', ''#ff0000''], sc_type = ''scene'' \<rparr>"
    unfolding regularScene_def
    by (simp add: extractColors_record[OF scene_record_evening] extract_spec_evening thenE_def)
       (simp add: evening_def getprop_def property_def display_name_def optget_def truthy_def)
  have b: "regularScene ext (Some bright) =
      Inr \<lparr> sc_id = Some (JStr ''b1''), sc_name = Some (JStr ''Bright''),
             sc_colors = [''#444444''], sc_type = ''scene'' \<rparr>"
    unfolding regularScene_def
    by (simp add: extractColors_record[OF scene_record_bright] extract_spec_bright thenE_def)
       (simp add: bright_def getprop_def property_def display_name_def optget_def truthy_def)
  show ?thesis
    by (simp add: data_map_def gateway_scenes_def optget_def property_def e b thenE_def)
qed

lemma smart_example: "data_map (smart_or_empty (Inl x)) smartScene = Inr []"
  by (simp add: smart_or_empty_def data_map_def optget_def property_def)



section \<open>Interaction controller: modes, selection, brightness\<close>

lemma doActivate_frame:
  "scenes (fst (doActivate s sc)) = scenes s \<and> selected (fst (doActivate s sc)) = selected s
   \<and> setMode (fst (doActivate s sc)) = setMode s
   \<and> brightnessMode (fst (doActivate s sc)) = brightnessMode s
   \<and> error (fst (doActivate s sc)) = error s \<and> loading (fst (doActivate s sc)) = loading s
   \<and> brightness (fst (doActivate s sc)) = brightness s
   \<and> lights (fst (doActivate s sc)) = lights s \<and> lightsOn (fst (doActivate s sc)) = lightsOn s"
  by (cases sc) (simp_all add: doActivate_def)

lemma handle_key_modes:
  "setMode (fst (handle_key s k)) =
     (if escape k \<or> input k = ''q'' then setMode s
      else if input k = ''s'' \<or> input k = ''S'' then \<not> setMode s
      else if input k = ''b'' \<or> input k = ''B'' then False
      else setMode s)
   \<and> brightnessMode (fst (handle_key s k)) =
     (if escape k \<or> input k = ''q'' then brightnessMode s
      else if input k = ''s'' \<or> input k = ''S'' then False
      else if input k = ''b'' \<or> input k = ''B'' then \<not> brightnessMode s
      else brightnessMode s)"
  by (simp add: handle_key_def doActivate_frame doSetBrightness_def toggleAllLights_def Let_def)

lemma handle_key_frame:
  "scenes (fst (handle_key s k)) = scenes s \<and> error (fst (handle_key s k)) = error s
   \<and> loading (fst (handle_key s k)) = loading s"
  by (simp add: handle_key_def doActivate_frame doSetBrightness_def toggleAllLights_def Let_def)

lemma store_lights_frame:
  "scenes (store_lights ls s) = scenes s \<and> error (store_lights ls s) = error s
   \<and> loading (store_lights ls s) = loading s \<and> selected (store_lights ls s) = selected s
   \<and> setMode (store_lights ls s) = setMode s
   \<and> brightnessMode (store_lights ls s) = brightnessMode s"
  by (simp add: store_lights_def Let_def)

lemma step_frame:
  "scenes (fst (step s e)) = scenes s \<and> error (fst (step s e)) = error s
   \<and> loading (fst (step s e)) = loading s"
  by (cases "(s, e)" rule: step.cases) (simp_all add: handle_key_frame store_lights_frame)

lemma step_modes_other:
  "(\<forall>k. e \<noteq> KeyPress k) \<Longrightarrow>
     setMode (fst (step s e)) = setMode s \<and> brightnessMode (fst (step s e)) = brightnessMode s
     \<and> selected (fst (step s e)) = selected s"
  by (cases "(s, e)" rule: step.cases) (simp_all add: store_lights_frame)

lemma step_exclusive: "exclusive s \<Longrightarrow> exclusive (fst (step s e))"
proof (cases "\<exists>k. e = KeyPress k")
  case True
  then obtain k where "e = KeyPress k" by blast
  moreover assume "exclusive s"
  ultimately show ?thesis by (simp add: exclusive_def handle_key_modes)
next
  case False
  moreover assume "exclusive s"
  ultimately show ?thesis using step_modes_other[of e s] by (simp add: exclusive_def)
qed

lemma run_exclusive: "exclusive s \<Longrightarrow> exclusive (run s es)"
  by (induction es arbitrary: s) (simp_all add: step_exclusive)

lemma load_done_frame:
  "setMode (load_done ext cmp a b c s) = setMode s
   \<and> brightnessMode (load_done ext cmp a b c s) = brightnessMode s
   \<and> selected (load_done ext cmp a b c s) = selected s"
proof (cases "load_body ext cmp a b c s")
  case (Inl e)
  then show ?thesis by (cases e) (simp add: load_done_def)
next
  case (Inr s')
  then obtain ls sc where "s' = store_lights ls (s\<lparr> scenes := sc \<rparr>)"
    by (auto simp: load_body_def thenE_def split: sum.splits)
  with Inr show ?thesis by (simp add: load_done_def store_lights_frame)
qed

lemma session_exclusive: "exclusive (session ext cmp before a b c after)"
proof -
  have "exclusive init" by (simp add: exclusive_def init_def)
  then have "exclusive (run init before)" by (rule run_exclusive)
  then have "exclusive (load_done ext cmp a b c (run init before))"
    by (simp add: exclusive_def load_done_frame)
  then show ?thesis unfolding session_def by (rule run_exclusive)
qed

text \<open>
  C6. \<open>s\<close> or \<open>S\<close> toggles set mode and clears brightness mode, \<open>b\<close> or \<open>B\<close> toggles
  brightness mode and clears set mode, and in no state of any session (any events before
  the load, any outcome of the load, any events after it) are both modes active.
\<close>

theorem modes_mutually_exclusive:
  "(\<not> escape k \<and> (input k = ''s'' \<or> input k = ''S'') \<longrightarrow>
      handle_key s k = (s\<lparr> setMode := \<not> setMode s, brightnessMode := False \<rparr>, []))
   \<and> (\<not> escape k \<and> (input k = ''b'' \<or> input k = ''B'') \<longrightarrow>
      handle_key s k = (s\<lparr> brightnessMode := \<not> brightnessMode s, setMode := False \<rparr>, []))
   \<and> \<not> (setMode (session ext cmp before sceneR smartR lightR after)
          \<and> brightnessMode (session ext cmp before sceneR smartR lightR after))"
proof (intro conjI impI)
  assume "\<not> escape k \<and> (input k = ''s'' \<or> input k = ''S'')"
  then show "handle_key s k = (s\<lparr> setMode := \<not> setMode s, brightnessMode := False \<rparr>, [])"
    by (auto simp: handle_key_def)
next
  assume "\<not> escape k \<and> (input k = ''b'' \<or> input k = ''B'')"
  then show "handle_key s k = (s\<lparr> brightnessMode := \<not> brightnessMode s, setMode := False \<rparr>, [])"
    by (auto simp: handle_key_def)
next
  show "\<not> (setMode (session ext cmp before sceneR smartR lightR after)
          \<and> brightnessMode (session ext cmp before sceneR smartR lightR after))"
    using session_exclusive[of ext cmp before sceneR smartR lightR after]
    by (simp add: exclusive_def)
qed

lemma char_key_simps:
  "input (char_key c) = c" "\<not> escape (char_key c)" "\<not> upArrow (char_key c)"
  "\<not> downArrow (char_key c)" "\<not> return (char_key c)"
  by (simp_all add: char_key_def)

theorem modes_mutually_exclusive_witness:
  "brightnessMode (run init [KeyPress (char_key ''b'')])
   \<and> \<not> setMode (run init [KeyPress (char_key ''b'')])
   \<and> setMode (run init [KeyPress (char_key ''b''), KeyPress (char_key ''s'')])
   \<and> \<not> brightnessMode (run init [KeyPress (char_key ''b''), KeyPress (char_key ''s'')])"
  using modes_mutually_exclusive[of "char_key ''b''" init]
    modes_mutually_exclusive[of "char_key ''s''" "init\<lparr> brightnessMode := True, setMode := False \<rparr>"]
  by (simp add: char_key_simps init_def)

lemma at_index_empty: "at_index [] i = None"
  by (simp add: at_index_def)

lemma handle_key_selected:
  "selected (fst (handle_key s k)) =
     (if escape k \<or> input k = ''q'' \<or> input k = ''s'' \<or> input k = ''S'' \<or> input k = ''b''
         \<or> input k = ''B'' \<or> input k = ''o'' \<or> input k = ''O'' \<or> brightnessMode s
      then selected s
      else if downArrow k then min (selected s + 1) (max 0 (int (length (scenes s)) - 1))
      else if upArrow k then max (selected s - 1) 0
      else selected s)"
  by (simp add: handle_key_def doActivate_frame doSetBrightness_def toggleAllLights_def Let_def)

lemma moved_index_valid:
  assumes "0 \<le> i" "i < n"
  shows "0 \<le> min (i + 1) (max 0 (n - 1)) \<and> min (i + 1) (max 0 (n - 1)) < n
       \<and> 0 \<le> max (i - 1) 0 \<and> max (i - 1) 0 < (n::int)"
  using assms by (simp add: min_def max_def)

lemma handle_key_selection:
  assumes "valid_selection s"
  shows "valid_selection (fst (handle_key s k))"
proof (cases "scenes s = []")
  case True
  with assms have "selected s = 0" by (simp add: valid_selection_def)
  with True show ?thesis
    by (simp add: valid_selection_def handle_key_frame handle_key_selected)
next
  case False
  with assms have i: "0 \<le> selected s" "selected s < int (length (scenes s))"
    by (simp_all add: valid_selection_def)
  from moved_index_valid[OF i] i False show ?thesis
    by (simp add: valid_selection_def handle_key_frame handle_key_selected)
qed

lemma step_selection: "valid_selection s \<Longrightarrow> valid_selection (fst (step s e))"
proof (cases "\<exists>k. e = KeyPress k")
  case True
  then obtain k where "e = KeyPress k" by blast
  moreover assume "valid_selection s"
  ultimately show ?thesis by (simp add: handle_key_selection)
next
  case False
  moreover assume "valid_selection s"
  ultimately show ?thesis
    using step_modes_other[of e s] step_frame[of s e] by (simp add: valid_selection_def)
qed

lemma run_selection: "valid_selection s \<Longrightarrow> valid_selection (run s es)"
  by (induction es arbitrary: s) (simp_all add: step_selection)

lemma run_frame:
  "scenes (run s es) = scenes s \<and> error (run s es) = error s \<and> loading (run s es) = loading s"
  by (induction es arbitrary: s) (simp_all add: step_frame)

lemma load_done_selection:
  assumes "scenes s = []" "selected s = 0"
  shows "valid_selection (load_done ext cmp a b c s)"
proof (cases "load_body ext cmp a b c s")
  case (Inl e)
  then show ?thesis using assms by (cases e) (simp add: load_done_def valid_selection_def)
next
  case (Inr s')
  then obtain ls sc where "s' = store_lights ls (s\<lparr> scenes := sc \<rparr>)"
    by (auto simp: load_body_def thenE_def split: sum.splits)
  with Inr assms show ?thesis
    by (simp add: load_done_def store_lights_frame valid_selection_def)
qed

lemma session_selection: "valid_selection (session ext cmp before a b c after)"
proof -
  have v: "valid_selection init" by (simp add: valid_selection_def init_def)
  have "scenes (run init before) = []" by (simp add: run_frame init_def)
  moreover from run_selection[OF v, of before] this have "selected (run init before) = 0"
    by (simp add: valid_selection_def)
  ultimately have "valid_selection (load_done ext cmp a b c (run init before))"
    by (rule load_done_selection)
  then show ?thesis unfolding session_def by (rule run_selection)
qed

text \<open>
  C7. In every state of every session the selection index is valid: at least 0 and
  below the scene count on a non-empty list, 0 on the empty list. Key presses keep it
  valid, and on the empty list an arrow key outside brightness mode changes nothing and
  sends nothing.
\<close>

theorem selection_index_valid:
  "valid_selection (session ext cmp before sceneR smartR lightR after)
   \<and> (valid_selection s \<longrightarrow> valid_selection (run s (map KeyPress ks)))
   \<and> (valid_selection s \<and> scenes s = [] \<and> \<not> brightnessMode s \<and> arrow_key k \<longrightarrow>
        handle_key s k = (s, []))"
proof (intro conjI impI)
  show "valid_selection (session ext cmp before sceneR smartR lightR after)"
    by (rule session_selection)
next
  assume "valid_selection s"
  then show "valid_selection (run s (map KeyPress ks))" by (rule run_selection)
next
  assume a: "valid_selection s \<and> scenes s = [] \<and> \<not> brightnessMode s \<and> arrow_key k"
  then have "selected s = 0" by (simp add: valid_selection_def)
  with a show "handle_key s k = (s, [])"
    by (auto simp: arrow_key_def handle_key_def at_index_empty)
qed

lemma two_scenes_facts:
  "length (scenes two_scenes) = 2 \<and> selected two_scenes = 0 \<and> \<not> brightnessMode two_scenes
   \<and> \<not> setMode two_scenes"
  unfolding two_scenes_def
  by (simp add: load_done_success[OF regular_example smart_example] store_lights_frame init_def)

lemma arrow_key_simps:
  "input up_key = []" "\<not> escape up_key" "upArrow up_key" "\<not> downArrow up_key"
  "input down_key = []" "\<not> escape down_key" "\<not> upArrow down_key" "downArrow down_key"
  "arrow_key up_key" "arrow_key down_key"
  by (simp_all add: up_key_def down_key_def arrow_key_def)

lemma down_thrice:
  "selected (run two_scenes [KeyPress down_key, KeyPress down_key, KeyPress down_key]) = 1"
  using two_scenes_facts
  by (simp add: handle_key_selected handle_key_frame handle_key_modes arrow_key_simps)

theorem selection_index_valid_witness:
  "selected (run two_scenes [KeyPress down_key, KeyPress down_key, KeyPress down_key]) = 1
   \<and> length (scenes (run two_scenes [KeyPress down_key, KeyPress down_key, KeyPress down_key])) = 2
   \<and> handle_key init down_key = (init, [])
   \<and> handle_key init up_key = (init, [])"
proof -
  have v: "valid_selection init \<and> scenes init = [] \<and> \<not> brightnessMode init"
    by (simp add: valid_selection_def init_def)
  have "valid_selection two_scenes" using two_scenes_facts by (simp add: valid_selection_def)
  with selection_index_valid[of "\<lambda>_. NaN" example_compare "[]" "Inr None" "Inr None" "Inr None" "[]"
      two_scenes "[down_key, down_key, down_key]" down_key]
  have "valid_selection (run two_scenes (map KeyPress [down_key, down_key, down_key]))" by blast
  moreover have "handle_key init down_key = (init, [])"
    using selection_index_valid[of "\<lambda>_. NaN" example_compare "[]" "Inr None" "Inr None" "Inr None" "[]"
      init "[]" down_key] v arrow_key_simps by blast
  moreover have "handle_key init up_key = (init, [])"
    using selection_index_valid[of "\<lambda>_. NaN" example_compare "[]" "Inr None" "Inr None" "Inr None" "[]"
      init "[]" up_key] v arrow_key_simps by blast
  moreover have "length (scenes (run two_scenes [KeyPress down_key, KeyPress down_key, KeyPress down_key])) = 2"
    using two_scenes_facts by (simp add: handle_key_frame)
  ultimately show ?thesis using down_thrice by blast
qed

lemma brightness_key:
  assumes "brightnessMode s" "arrow_key k"
  shows "handle_key s k =
     doSetBrightness s (if upArrow k then brightness s + 1 else brightness s - 1)"
  using assms by (auto simp: handle_key_def arrow_key_def)

lemma doSetBrightness_facts:
  "brightness (fst (doSetBrightness s v)) = max 1 (min 100 v)
   \<and> 1 \<le> brightness (fst (doSetBrightness s v)) \<and> brightness (fst (doSetBrightness s v)) \<le> 100
   \<and> brightnessMode (fst (doSetBrightness s v)) = brightnessMode s
   \<and> snd (doSetBrightness s v) = map (\<lambda>l. PutBrightness (l_id l) (max 1 (min 100 v))) (lights s)"
  by (simp add: doSetBrightness_def Let_def)

lemma arrows_in_brightness_mode:
  assumes "brightnessMode s" "ks \<noteq> []" "list_all arrow_key ks"
  shows "1 \<le> brightness (run s (map KeyPress ks)) \<and> brightness (run s (map KeyPress ks)) \<le> 100
       \<and> brightnessMode (run s (map KeyPress ks))"
  using assms
proof (induction ks arbitrary: s)
  case Nil
  then show ?case by simp
next
  case (Cons k ks)
  let ?s' = "fst (handle_key s k)"
  from Cons.prems have k: "arrow_key k" and rest: "list_all arrow_key ks" by simp_all
  have h: "handle_key s k = doSetBrightness s (if upArrow k then brightness s + 1 else brightness s - 1)"
    using brightness_key[OF Cons.prems(1) k] .
  have s': "1 \<le> brightness ?s'" "brightness ?s' \<le> 100" "brightnessMode ?s'"
    using doSetBrightness_facts[of s "if upArrow k then brightness s + 1 else brightness s - 1"]
      Cons.prems(1) by (simp_all add: h)
  show ?case
  proof (cases "ks = []")
    case True
    with s' show ?thesis by simp
  next
    case False
    from Cons.IH[OF s'(3) False rest] show ?thesis by simp
  qed
qed

text \<open>
  C8. In brightness mode an up arrow stores the brightness plus 1 and a down arrow the
  brightness minus 1, clamped to \<open>[1,100]\<close>, at the key press; one brightness request per
  known light is sent with the stored value; the completion of the requests, failed or
  not, leaves the brightness as stored; after any non-empty sequence of such presses
  the brightness is between 1 and 100.
\<close>

theorem brightness_adjust_clamped:
  assumes "brightnessMode s" "arrow_key k"
  shows "brightness (fst (handle_key s k))
           = max 1 (min 100 (if upArrow k then brightness s + 1 else brightness s - 1))
     \<and> 1 \<le> brightness (fst (handle_key s k)) \<and> brightness (fst (handle_key s k)) \<le> 100
     \<and> snd (handle_key s k)
           = map (\<lambda>l. PutBrightness (l_id l) (brightness (fst (handle_key s k)))) (lights s)
     \<and> brightness (fst (step (fst (handle_key s k)) (BrightnessDone r)))
           = brightness (fst (handle_key s k))
     \<and> (ks \<noteq> [] \<and> list_all arrow_key ks \<longrightarrow>
           1 \<le> brightness (run s (map KeyPress ks)) \<and> brightness (run s (map KeyPress ks)) \<le> 100)"
proof -
  let ?v = "if upArrow k then brightness s + 1 else brightness s - 1"
  have h: "handle_key s k = doSetBrightness s ?v" using brightness_key[OF assms] .
  have d: "brightness (fst (step s' (BrightnessDone r))) = brightness s'" for s'
    by (cases "(s', BrightnessDone r)" rule: step.cases) simp_all
  show ?thesis
    using doSetBrightness_facts[of s ?v] arrows_in_brightness_mode[OF assms(1), of ks] d
    by (simp add: h)
qed

theorem brightness_adjust_clamped_witness:
  "brightnessMode dimming \<and> arrow_key down_key
   \<and> brightness (fst (handle_key dimming down_key)) = 1
   \<and> snd (handle_key dimming down_key) = [PutBrightness ''lamp-1'' 1]
   \<and> brightness (run dimming (map KeyPress [down_key, down_key, down_key])) = 1
   \<and> brightness (fst (step (fst (handle_key dimming down_key))
        (BrightnessDone (Some (Exn ''fetch failed''))))) = 1"
proof -
  have b: "brightnessMode dimming" "brightness dimming = 2" "lights dimming = [lamp 2]"
    by (simp_all add: dimming_def)
  have run: "brightness (run dimming (map KeyPress [down_key, down_key, down_key])) = 1"
    by (simp add: brightness_key doSetBrightness_def Let_def b arrow_key_simps)
  from brightness_adjust_clamped[OF b(1) arrow_key_simps(10), of "Some (Exn ''fetch failed'')" "[]"]
  show ?thesis using run by (simp add: b arrow_key_simps lamp_def)
qed

section \<open>Interaction controller: load failure and the toggle of all lights\<close>

lemma data_map_absent: "data_map None f = Inr []"
  by (simp add: data_map_def optget_def)

lemma smart_or_empty_Inr: "smart_or_empty (Inr v) = v"
  by (simp add: smart_or_empty_def)

lemma one_lamp_on_facts:
  "lights one_lamp_on = [lamp 40] \<and> lightsOn one_lamp_on \<and> brightness one_lamp_on = 40
   \<and> scenes one_lamp_on = [] \<and> \<not> loading one_lamp_on \<and> error one_lamp_on = None
   \<and> message one_lamp_on = []"
  unfolding one_lamp_on_def
  using load_done_success[of None "\<lambda>_. NaN" "[]" "Inr None" "[]" example_compare "Some [lamp 40]" init]
  by (simp add: data_map_absent smart_or_empty_Inr store_lights_def Let_def roster_def lamp_def
      anyOn_def avgBrightness_def init_def)

lemma failed_load_eq: "failed_load = init\<lparr> error := Some ''HTTP 403: Forbidden'', loading := False \<rparr>"
  by (simp add: failed_load_def load_done_def load_body_def thenE_def)

text \<open>
  C9, as stated, fails: \<open>useInput\<close> is registered before the early returns and tests
  neither \<open>loading\<close> nor \<open>error\<close>, so after a failed load \<open>s\<close> still toggles set mode and
  an arrow in brightness mode still changes the brightness.
\<close>

theorem error_state_counterexample:
  "error failed_load = Some ''HTTP 403: Forbidden''
   \<and> render failed_load = ErrorView ''HTTP 403: Forbidden''
   \<and> \<not> setMode failed_load
   \<and> setMode (fst (step failed_load (KeyPress (char_key ''s''))))
   \<and> fst (step failed_load (KeyPress (char_key ''s''))) \<noteq> failed_load
   \<and> brightness failed_load = 100
   \<and> brightness (run failed_load [KeyPress (char_key ''b''), KeyPress down_key]) = 99"
proof -
  have m: "setMode (fst (step failed_load (KeyPress (char_key ''s''))))" "\<not> setMode failed_load"
    by (simp_all add: failed_load_eq handle_key_modes char_key_simps init_def)
  then have "fst (step failed_load (KeyPress (char_key ''s''))) \<noteq> failed_load" by metis
  moreover have "brightness (run failed_load [KeyPress (char_key ''b''), KeyPress down_key]) = 99"
    by (simp add: failed_load_eq handle_key_def char_key_simps arrow_key_simps init_def
        doSetBrightness_def Let_def)
  ultimately show ?thesis using m
    by (simp add: failed_load_eq render_def init_def)
qed

lemma render_error:
  "error s = Some m \<Longrightarrow> m \<noteq> [] \<Longrightarrow> \<not> loading s \<Longrightarrow> render s = ErrorView m"
  by (simp add: render_def)

text \<open>
  C9, amended. A rejected smart-scene fetch alone is replaced by an empty list; a
  rejected scene fetch or light fetch sets the error value and ends loading, the rest of
  the state untouched. No event changes the error value afterwards, and with a
  non-empty error value the component renders the error view whatever the events did
  to the other cells.
\<close>

theorem load_failure_terminal:
  "load_done ext cmp sceneR (Inl e) lightR s
     = load_done ext cmp sceneR (Inr (Some (JObj [(''data'', JArr [])]))) lightR s
   \<and> load_done ext cmp (Inl (Exn m)) smartR lightR s = s\<lparr> error := Some m, loading := False \<rparr>
   \<and> load_done ext cmp (Inr d) smartR (Inl (Exn m)) s = s\<lparr> error := Some m, loading := False \<rparr>
   \<and> error (run s evs) = error s
   \<and> (error s = Some m \<and> m \<noteq> [] \<and> \<not> loading s \<longrightarrow> render (run s evs) = ErrorView m)"
proof (intro conjI impI)
  show "load_done ext cmp sceneR (Inl e) lightR s
     = load_done ext cmp sceneR (Inr (Some (JObj [(''data'', JArr [])]))) lightR s"
    by (simp add: load_done_def load_body_def smart_or_empty_def)
  show "load_done ext cmp (Inl (Exn m)) smartR lightR s = s\<lparr> error := Some m, loading := False \<rparr>"
    by (simp add: load_done_def load_body_def thenE_def)
  show "load_done ext cmp (Inr d) smartR (Inl (Exn m)) s = s\<lparr> error := Some m, loading := False \<rparr>"
    by (simp add: load_done_def load_body_def thenE_def)
  show "error (run s evs) = error s" by (simp add: run_frame)
next
  assume "error s = Some m \<and> m \<noteq> [] \<and> \<not> loading s"
  then show "render (run s evs) = ErrorView m"
    by (intro render_error) (simp_all add: run_frame)
qed

theorem load_failure_terminal_witness:
  "error failed_load = Some ''HTTP 403: Forbidden'' \<and> \<not> loading failed_load
   \<and> render (run failed_load [KeyPress (char_key ''s''), KeyPress down_key, KeyPress (char_key ''o'')])
       = ErrorView ''HTTP 403: Forbidden''
   \<and> error (load_done (\<lambda>_. NaN) example_compare (Inr gateway_scenes) (Inr None)
        (Inl (Exn ''fetch failed'')) init) = Some ''fetch failed''
   \<and> load_done (\<lambda>_. NaN) example_compare (Inr gateway_scenes) (Inl (Exn ''HTTP 404: Not Found''))
        (Inr None) init
      = load_done (\<lambda>_. NaN) example_compare (Inr gateway_scenes)
          (Inr (Some (JObj [(''data'', JArr [])]))) (Inr None) init"
proof -
  have f: "error failed_load = Some ''HTTP 403: Forbidden''" "\<not> loading failed_load"
    by (simp_all add: failed_load_eq)
  from f load_failure_terminal[where s = failed_load and m = "''HTTP 403: Forbidden''"
      and evs = "[KeyPress (char_key ''s''), KeyPress down_key, KeyPress (char_key ''o'')]"]
    load_failure_terminal[where s = init and ext = "\<lambda>_. NaN" and cmp = example_compare
      and sceneR = "Inr gateway_scenes" and e = "Exn ''HTTP 404: Not Found''" and lightR = "Inr None"
      and m = "''fetch failed''" and d = gateway_scenes and smartR = "Inr None"]
  show ?thesis by simp
qed

lemma after_toggle_facts:
  "lights after_toggle = [lamp 80] \<and> \<not> lightsOn after_toggle \<and> brightness after_toggle = 40
   \<and> message after_toggle = ''Off''"
  using one_lamp_on_facts
  by (simp add: after_toggle_def targetState_def anyOn_def lamp_def roster_def)

text \<open>
  C1, as stated, fails: on completion the toggle stores the reloaded roster but sets the
  aggregate power to the target computed at the key press and does not touch the
  brightness. With a lamp that is still on in the reloaded roster, at brightness 80, the
  state says off and 40 where the block shared by the load and \<open>doActivate\<close> would say on
  and 80.
\<close>

theorem toggle_derived_counterexample:
  "targetState one_lamp_on = False
   \<and> lights after_toggle = [lamp 80]
   \<and> lightsOn after_toggle \<noteq> anyOn (lights after_toggle)
   \<and> brightness after_toggle = 40
   \<and> avgBrightness (filter l_on (lights after_toggle)) = 80
   \<and> lightsOn (store_lights [lamp 80] one_lamp_on)
   \<and> brightness (store_lights [lamp 80] one_lamp_on) = 80"
  using one_lamp_on_facts after_toggle_facts
  by (simp add: targetState_def anyOn_def lamp_def avgBrightness_def store_lights_def Let_def)

lemma toggle_key:
  assumes "\<not> escape k" "input k = ''o'' \<or> input k = ''O''"
  shows "handle_key s k = (s, map (\<lambda>l. PutPower (l_id l) (targetState s)) (lights s))"
  using assms by (auto simp: handle_key_def toggleAllLights_def)

text \<open>
  C1, amended. A press of \<open>o\<close> or \<open>O\<close> computes the target as the negation of "some light
  of the stored roster is on" and sends one power request per known light with it. A
  successful completion stores the reloaded roster, sets the aggregate power to that
  target, leaves the brightness, sets the message \<open>On\<close> or \<open>Off\<close> and a timer of 2000 ms
  whose firing clears the message; a failed one only sets a failure message. With all
  lights on, every request says off and the aggregate power is false afterwards.
\<close>

theorem toggle_all_lights:
  assumes "\<not> escape k" "input k = ''o'' \<or> input k = ''O''"
  shows "handle_key s k = (s, map (\<lambda>l. PutPower (l_id l) (\<not> list_ex l_on (lights s))) (lights s))
     \<and> targetState s = (\<not> list_ex l_on (lights s))
     \<and> step s' (ToggleDone (targetState s) (Inr lightData))
         = (s'\<lparr> lights := roster lightData, lightsOn := \<not> list_ex l_on (lights s),
                 message := (if list_ex l_on (lights s) then ''Off'' else ''On'') \<rparr>,
            [SetTimeout 2000])
     \<and> brightness (fst (step s' (ToggleDone (targetState s) (Inr lightData)))) = brightness s'
     \<and> message (fst (step s'' TimerFired)) = []
     \<and> step s' (ToggleDone (targetState s) (Inl (Exn m)))
         = (s'\<lparr> message := ''Failed to toggle lights: '' @ m \<rparr>, [])
     \<and> (list_all l_on (lights s) \<and> lights s \<noteq> [] \<longrightarrow>
          snd (handle_key s k) = map (\<lambda>l. PutPower (l_id l) False) (lights s)
          \<and> \<not> lightsOn (fst (step s' (ToggleDone (targetState s) (Inr lightData)))))"
proof -
  have t: "targetState s = (\<not> list_ex l_on (lights s))"
    by (simp add: targetState_def anyOn_def)
  have allon: "list_ex l_on (lights s)" if "list_all l_on (lights s) \<and> lights s \<noteq> []"
    using that by (cases "lights s") simp_all
  show ?thesis
    using toggle_key[OF assms, of s] allon by (auto simp: t)
qed

theorem toggle_all_lights_witness:
  "handle_key one_lamp_on (char_key ''o'') = (one_lamp_on, [PutPower ''lamp-1'' False])
   \<and> snd (step one_lamp_on (ToggleDone (targetState one_lamp_on) (Inr (Some [lamp 80]))))
       = [SetTimeout 2000]
   \<and> message after_toggle = ''Off''
   \<and> \<not> lightsOn after_toggle
   \<and> message (fst (step after_toggle TimerFired)) = []"
  using toggle_all_lights[of "char_key ''o''" one_lamp_on one_lamp_on "Some [lamp 80]" after_toggle "[]"]
    one_lamp_on_facts after_toggle_facts
  by (simp add: char_key_simps lamp_def)

end
